theory Spec2Isabelle
  imports Complex_Main
begin

section \<open>Data model\<close>

text \<open>
  The simulator lives in the component \<open>TrafficSignalOverlay\<close>. A signal is the
  interface \<open>TrafficSignal\<close>; its \<open>currentState\<close> is one of four string literals,
  a closed enumeration here.
\<close>

datatype SignalState = Red | Yellow | Green | Walk

text \<open>
  The numeric fields \<open>countdown\<close>, \<open>cycleCount\<close> and \<open>completedCycles\<close> only ever hold
  whole numbers and are integers here. The coordinates are JavaScript numbers, taken as
  reals. The type of the coordinates is a parameter: \<open>real\<close> for a signal as the
  interface declares it, \<open>real option\<close> for the untyped value (\<open>None\<close> is
  \<open>undefined\<close>) that the adapter of raw candidates computes before it filters.
  The field \<open>id\<close> of the source is \<open>id_s\<close>.
\<close>

record 'c TrafficSignal =
  id_s :: string
  lat :: 'c
  lng :: 'c
  name :: string
  currentState :: SignalState
  countdown :: int
  pedestrianWalk :: bool
  cycleCount :: int
  completedCycles :: int

section \<open>The tick: \<open>updateSignalStates\<close>\<close>

text \<open>\<open>x || 0\<close> on a number: a falsy number is \<open>0\<close> already.\<close>

definition or_zero :: "int \<Rightarrow> int" where
  "or_zero x = (if x = 0 then 0 else x)"

text \<open>
  The five locals of the arrow function inside \<open>updateSignalStates\<close>, in the order
  \<open>(newState, newCountdown, newPedestrianWalk, newCycleCount, newCompletedCycles)\<close>,
  as they stand when the function returns.
\<close>

definition tickLocals ::
  "'c TrafficSignal \<Rightarrow> SignalState \<times> int \<times> bool \<times> int \<times> int" where
  "tickLocals signal =
    (let newCountdown = countdown signal - 1;
         newState = currentState signal;
         newPedestrianWalk = False;
         newCycleCount = cycleCount signal;
         newCompletedCycles = or_zero (completedCycles signal)
     in
       if newCountdown \<le> 0 then
         (case currentState signal of
            Red \<Rightarrow> (Green, 30, newPedestrianWalk, newCycleCount, newCompletedCycles)
          | Green \<Rightarrow> (Yellow, 6, newPedestrianWalk, newCycleCount, newCompletedCycles)
          | Yellow \<Rightarrow>
              (let newCompletedCycles = newCompletedCycles + 1
               in if newCompletedCycles \<ge> 2
                  then (Walk, 20, True, newCycleCount, 0)
                  else (Red, 45, newPedestrianWalk, newCycleCount, newCompletedCycles))
          | Walk \<Rightarrow> (Red, 45, False, newCycleCount, newCompletedCycles))
       else
         (newState, newCountdown,
          (if currentState signal = Walk then True else newPedestrianWalk),
          newCycleCount, newCompletedCycles))"

text \<open>The returned object: the spread of \<open>signal\<close> with the five fields overwritten.\<close>

definition updateSignalState :: "'c TrafficSignal \<Rightarrow> 'c TrafficSignal" where
  "updateSignalState signal =
    (case tickLocals signal of
       (newState, newCountdown, newPedestrianWalk, newCycleCount, newCompletedCycles) \<Rightarrow>
         signal\<lparr>currentState := newState,
                countdown := newCountdown,
                pedestrianWalk := newPedestrianWalk,
                cycleCount := newCycleCount,
                completedCycles := newCompletedCycles\<rparr>)"

text \<open>\<open>setTrafficSignals(prev => prev.map(...))\<close>: the new array from the old one.\<close>

definition updateSignalStates :: "'c TrafficSignal list \<Rightarrow> 'c TrafficSignal list" where
  "updateSignalStates prev = map updateSignalState prev"

text \<open>The state of one signal after \<open>n\<close> ticks.\<close>

primrec run :: "nat \<Rightarrow> 'c TrafficSignal \<Rightarrow> 'c TrafficSignal" where
  "run 0 signal = signal"
| "run (Suc n) signal = run n (updateSignalState signal)"

section \<open>The factory: initial phase and countdown\<close>

text \<open>
  \<open>getInitialState\<close>: \<open>states[signalIndex % 3]\<close> over the array
  \<open>['red', 'green', 'yellow']\<close>; the index is an array index, so a natural number,
  and the read is always in range.
\<close>

definition getInitialState :: "nat \<Rightarrow> SignalState" where
  "getInitialState signalIndex = [Red, Green, Yellow] ! (signalIndex mod 3)"

text \<open>The table \<open>baseCountdowns\<close> inside \<open>getInitialCountdown\<close>.\<close>

fun baseCountdowns :: "SignalState \<Rightarrow> int" where
  "baseCountdowns Red = 45"
| "baseCountdowns Green = 30"
| "baseCountdowns Yellow = 6"
| "baseCountdowns Walk = 20"

text \<open>
  \<open>getInitialCountdown\<close>. \<open>Math.floor(maxTime * 0.2)\<close> is the floor of a real product
  (for the four durations of the table the double product has the same floor: 9, 6, 1
  and 4). Both operands of \<open>%\<close> are positive, so it is \<open>mod\<close>.
\<close>

definition getInitialCountdown :: "SignalState \<Rightarrow> nat \<Rightarrow> int" where
  "getInitialCountdown state signalIndex =
    (let maxTime = baseCountdowns state;
         minTime = max 5 \<lfloor>real_of_int maxTime * 0.2\<rfloor>;
         seed = (int signalIndex * 7 + 13) mod (maxTime - minTime + 1)
     in minTime + seed)"

text \<open>A number inside a template literal: its decimal digits.\<close>

definition digit_char :: "nat \<Rightarrow> char" where
  "digit_char d = ''0123456789'' ! d"

function string_of_nat :: "nat \<Rightarrow> string" where
  "string_of_nat n =
    (if n < 10 then [digit_char n]
     else string_of_nat (n div 10) @ [digit_char (n mod 10)])"
  by pat_completeness auto
termination
  by (relation "measure (\<lambda>n. n)") auto

declare string_of_nat.simps [simp del]

section \<open>The factory: demo layout\<close>

text \<open>
  The object that the body of the loop in \<open>createDemoSignals\<close> builds for index \<open>i\<close>;
  \<open>location\<close> is the pair \<open>(lat, lng)\<close>.
\<close>

definition demoSignal :: "real \<times> real \<Rightarrow> nat \<Rightarrow> real TrafficSignal" where
  "demoSignal location i =
    (let initialState = getInitialState i
     in \<lparr>id_s = ''demo_signal_'' @ string_of_nat (i + 1),
         lat = fst location + (if i mod 2 = 0 then 0.001 else - 0.001) * real (i + 1),
         lng = snd location + (if i < 2 then 0.001 else - 0.001) * real (i + 1),
         name = ''Traffic Signal '' @ string_of_nat (i + 1),
         currentState = initialState,
         countdown = getInitialCountdown initialState i,
         pedestrianWalk = False,
         cycleCount = 0,
         completedCycles = 0\<rparr>)"

text \<open>The loop \<open>for (let i = 0; i < 4; i++) { ...; demoSignals.push(signal) }\<close>.\<close>

function createDemoSignals_loop ::
  "real \<times> real \<Rightarrow> nat \<Rightarrow> real TrafficSignal list \<Rightarrow> real TrafficSignal list" where
  "createDemoSignals_loop location i demoSignals =
    (if i < 4
     then createDemoSignals_loop location (i + 1) (demoSignals @ [demoSignal location i])
     else demoSignals)"
  by pat_completeness auto
termination
  by (relation "measure (\<lambda>(location, i, demoSignals). 4 - i)") auto

declare createDemoSignals_loop.simps [simp del]

text \<open>\<open>createDemoSignals\<close>: the array it hands to \<open>setTrafficSignals\<close>.\<close>

definition createDemoSignals :: "real \<times> real \<Rightarrow> real TrafficSignal list" where
  "createDemoSignals location = createDemoSignals_loop location 0 []"

section \<open>The factory: adapting raw candidates\<close>

text \<open>
  A raw candidate is an \<open>any\<close>; these are the properties \<open>enhanceAllSignals\<close> reads.
  \<open>None\<close> is a missing property. \<open>geometry\<close> holds its optional array
  \<open>coordinates\<close>, \<open>latlng\<close> its optional \<open>lat\<close> and \<open>lng\<close>, \<open>properties\<close> its
  optional \<open>name\<close>.
\<close>

record Candidate =
  c_id :: "string option"
  c_lat :: "real option"
  c_lng :: "real option"
  c_geometry :: "real list option option"
  c_latlng :: "(real option \<times> real option) option"
  c_name :: "string option"
  c_properties :: "string option option"

text \<open>Truthiness of an optional number and of an optional string.\<close>

fun truthy_num :: "real option \<Rightarrow> bool" where
  "truthy_num None = False"
| "truthy_num (Some x) = (x \<noteq> 0)"

fun truthy_str :: "string option \<Rightarrow> bool" where
  "truthy_str None = False"
| "truthy_str (Some x) = (x \<noteq> [])"

text \<open>\<open>a || b\<close>: the left operand when it is truthy, else the right one.\<close>

definition or_num :: "real option \<Rightarrow> real option \<Rightarrow> real option" where
  "or_num a b = (if truthy_num a then a else b)"

definition or_str :: "string option \<Rightarrow> string option \<Rightarrow> string option" where
  "or_str a b = (if truthy_str a then a else b)"

text \<open>\<open>signal.geometry?.coordinates?.[k]\<close>; a read past the end is \<open>undefined\<close>.\<close>

definition geometry_coordinate :: "Candidate \<Rightarrow> nat \<Rightarrow> real option" where
  "geometry_coordinate signal k =
    (case c_geometry signal of
       None \<Rightarrow> None
     | Some None \<Rightarrow> None
     | Some (Some coordinates) \<Rightarrow>
         (if k < length coordinates then Some (coordinates ! k) else None))"

definition latlng_lat :: "Candidate \<Rightarrow> real option" where
  "latlng_lat signal = (case c_latlng signal of None \<Rightarrow> None | Some p \<Rightarrow> fst p)"

definition latlng_lng :: "Candidate \<Rightarrow> real option" where
  "latlng_lng signal = (case c_latlng signal of None \<Rightarrow> None | Some p \<Rightarrow> snd p)"

definition properties_name :: "Candidate \<Rightarrow> string option" where
  "properties_name signal = (case c_properties signal of None \<Rightarrow> None | Some n \<Rightarrow> n)"

text \<open>The object that the callback of \<open>signalData.map\<close> returns for one candidate.\<close>

definition enhanceSignal :: "nat \<Rightarrow> Candidate \<Rightarrow> real option TrafficSignal" where
  "enhanceSignal index signal =
    (let initialState = getInitialState index
     in \<lparr>id_s = (case or_str (c_id signal) (Some (''global_signal_'' @ string_of_nat index))
                 of Some v \<Rightarrow> v | None \<Rightarrow> []),
         lat = or_num (or_num (c_lat signal) (geometry_coordinate signal 1)) (latlng_lat signal),
         lng = or_num (or_num (c_lng signal) (geometry_coordinate signal 0)) (latlng_lng signal),
         name = (case or_str (or_str (c_name signal) (properties_name signal))
                        (Some (''Traffic Signal '' @ string_of_nat (index + 1)))
                 of Some v \<Rightarrow> v | None \<Rightarrow> []),
         currentState = initialState,
         countdown = getInitialCountdown initialState index,
         pedestrianWalk = False,
         cycleCount = 0,
         completedCycles = 0\<rparr>)"

text \<open>
  \<open>enhanceAllSignals\<close>: the array \<open>enhancedSignals\<close>, that is the mapped candidates
  that pass \<open>.filter(signal => signal.lat && signal.lng)\<close>.
\<close>

definition enhanceAllSignals :: "Candidate list \<Rightarrow> real option TrafficSignal list" where
  "enhanceAllSignals signalData =
    filter (\<lambda>signal. truthy_num (lat signal) \<and> truthy_num (lng signal))
      (map (\<lambda>(index, signal). enhanceSignal index signal) (enumerate 0 signalData))"

text \<open>
  The reading of the specification: a candidate has a resolvable coordinate when a
  latitude and a longitude are each present in one of the three places, the explicit
  fields, the geometry, or the embedded \<open>latlng\<close>.
\<close>

fun present :: "real option \<Rightarrow> bool" where
  "present None = False"
| "present (Some x) = True"

definition spec_resolvable :: "Candidate \<Rightarrow> bool" where
  "spec_resolvable signal =
    ((present (c_lat signal) \<or> present (geometry_coordinate signal 1) \<or>
      present (latlng_lat signal))
     \<and> (present (c_lng signal) \<or> present (geometry_coordinate signal 0) \<or>
        present (latlng_lng signal)))"

text \<open>None of the coordinate values that the candidate carries is the number 0.\<close>

definition zero_free :: "Candidate \<Rightarrow> bool" where
  "zero_free signal =
    (c_lat signal \<noteq> Some 0 \<and> c_lng signal \<noteq> Some 0 \<and>
     geometry_coordinate signal 0 \<noteq> Some 0 \<and> geometry_coordinate signal 1 \<noteq> Some 0 \<and>
     latlng_lat signal \<noteq> Some 0 \<and> latlng_lng signal \<noteq> Some 0)"

text \<open>
  Sample inputs: the fallback anchor \<open>defaultLocation\<close> of \<open>fetchTrafficSignals\<close>, a
  candidate with explicit coordinates, one on the equator, and one with no coordinate.
\<close>

definition defaultLocation :: "real \<times> real" where
  "defaultLocation = (28.7041, 77.1025)"

definition candidateExplicit :: Candidate where
  "candidateExplicit =
    \<lparr>c_id = None, c_lat = Some 12.9716, c_lng = Some 77.5946, c_geometry = None,
     c_latlng = None, c_name = None, c_properties = None\<rparr>"

definition candidateOnEquator :: Candidate where
  "candidateOnEquator =
    \<lparr>c_id = None, c_lat = Some 0, c_lng = Some 77.1025, c_geometry = None,
     c_latlng = None, c_name = None, c_properties = None\<rparr>"

definition candidateNowhere :: Candidate where
  "candidateNowhere =
    \<lparr>c_id = None, c_lat = None, c_lng = None, c_geometry = None,
     c_latlng = None, c_name = Some ''Junction'', c_properties = None\<rparr>"

section \<open>Observing a trace of ticks\<close>

text \<open>
  \<open>count_ticks P n s\<close>: among the first \<open>n\<close> ticks of the signal \<open>s\<close>, the number of
  ticks that start in a state satisfying \<open>P\<close>.
\<close>

primrec count_ticks :: "('c TrafficSignal \<Rightarrow> bool) \<Rightarrow> nat \<Rightarrow> 'c TrafficSignal \<Rightarrow> nat" where
  "count_ticks P 0 s = 0"
| "count_ticks P (Suc n) s = (if P s then 1 else 0) + count_ticks P n (updateSignalState s)"

text \<open>The tick from this state leaves Yellow: the state is Yellow and the transition fires.\<close>

definition yellow_exit :: "'c TrafficSignal \<Rightarrow> bool" where
  "yellow_exit s = (currentState s = Yellow \<and> countdown s - 1 \<le> 0)"

text \<open>The tick from this state enters Walk, and the tick from this state leaves Walk.\<close>

definition walk_entry :: "'c TrafficSignal \<Rightarrow> bool" where
  "walk_entry s = (currentState s \<noteq> Walk \<and> currentState (updateSignalState s) = Walk)"

definition walk_exit :: "'c TrafficSignal \<Rightarrow> bool" where
  "walk_exit s = (currentState s = Walk \<and> currentState (updateSignalState s) \<noteq> Walk)"

text \<open>The fresh start of the cycle law: Red with the full 45 seconds and no cycle done.\<close>

definition freshRed :: "real TrafficSignal" where
  "freshRed =
    \<lparr>id_s = ''demo_signal_1'', lat = 28.7041, lng = 77.1025, name = ''Traffic Signal 1'',
     currentState = Red, countdown = 45, pedestrianWalk = False,
     cycleCount = 0, completedCycles = 0\<rparr>"

section \<open>The scheduler: the timer effect\<close>

text \<open>
  What the timer effect of the component reads and writes: the state variable
  \<open>trafficSignals\<close>, the ref \<open>intervalRef\<close> (\<open>None\<close> until the first
  \<open>setInterval\<close>), and of the runtime the handles of the intervals that are live and
  the next fresh handle (handles are positive, hence truthy). React's bookkeeping for
  the effect is the value its single dependency \<open>trafficSignals.length > 0\<close> had when
  the effect last ran, and whether that run returned a cleanup function.
\<close>

record 'c Overlay =
  trafficSignals :: "'c TrafficSignal list"
  intervalRef :: "nat option"
  liveIntervals :: "nat list"
  nextHandle :: nat
  lastDependency :: bool
  cleanupPending :: bool

definition clearInterval :: "nat \<Rightarrow> 'c Overlay \<Rightarrow> 'c Overlay" where
  "clearInterval h ov = ov\<lparr>liveIntervals := removeAll h (liveIntervals ov)\<rparr>"

text \<open>
  The body of the timer effect: nothing for an empty set; else it clears the interval
  of the ref, if any, and stores the handle of a new interval in the ref.
\<close>

definition timerEffect :: "'c Overlay \<Rightarrow> 'c Overlay" where
  "timerEffect ov =
    (if length (trafficSignals ov) = 0 then ov\<lparr>cleanupPending := False\<rparr>
     else
       (let ov1 = (case intervalRef ov of Some h \<Rightarrow> clearInterval h ov | None \<Rightarrow> ov);
            h = nextHandle ov1
        in ov1\<lparr>intervalRef := Some h,
                liveIntervals := liveIntervals ov1 @ [h],
                nextHandle := h + 1,
                cleanupPending := True\<rparr>))"

text \<open>The cleanup function that the effect returns.\<close>

definition timerCleanup :: "'c Overlay \<Rightarrow> 'c Overlay" where
  "timerCleanup ov =
    (case intervalRef ov of Some h \<Rightarrow> clearInterval h ov | None \<Rightarrow> ov)"

text \<open>
  The component after its first render: no signals, and the effect has run once, on
  the empty set.
\<close>

definition mountOverlay :: "'c Overlay" where
  "mountOverlay =
    timerEffect \<lparr>trafficSignals = [], intervalRef = None, liveIntervals = [],
                 nextHandle = 1, lastDependency = False, cleanupPending = False\<rparr>"

text \<open>
  \<open>setTrafficSignals(signals)\<close> and the render that follows: React runs the effect
  again only when its dependency \<open>trafficSignals.length > 0\<close> has changed, after the
  cleanup of the previous run.
\<close>

definition setTrafficSignals :: "'c TrafficSignal list \<Rightarrow> 'c Overlay \<Rightarrow> 'c Overlay" where
  "setTrafficSignals signals ov =
    (let ov1 = ov\<lparr>trafficSignals := signals\<rparr>;
         dependency = (length signals > 0)
     in if lastDependency ov1 = dependency then ov1
        else timerEffect
               ((if cleanupPending ov1 then timerCleanup ov1 else ov1)
                  \<lparr>lastDependency := dependency\<rparr>))"

text \<open>
  The callback of the interval \<open>h\<close> one second later: \<open>updateSignalStates()\<close>, a
  functional update of the current state. A cleared interval does not fire.
\<close>

definition intervalFires :: "nat \<Rightarrow> 'c Overlay \<Rightarrow> 'c Overlay" where
  "intervalFires h ov =
    (if h \<in> set (liveIntervals ov)
     then setTrafficSignals (updateSignalStates (trafficSignals ov)) ov
     else ov)"

text \<open>The scheduler is running on the interval \<open>h\<close>, and no other interval is live.\<close>

definition running :: "nat \<Rightarrow> 'c Overlay \<Rightarrow> bool" where
  "running h ov =
    (trafficSignals ov \<noteq> [] \<and> lastDependency ov \<and> cleanupPending ov \<and>
     intervalRef ov = Some h \<and> liveIntervals ov = [h])"

text \<open>
  The reading of the restart rule of the specification: across the replacement the old
  cadence was stopped and a new one started, that is some interval is live afterwards
  and none of the live ones was live before.
\<close>

definition spec_restarted :: "'c Overlay \<Rightarrow> 'c Overlay \<Rightarrow> bool" where
  "spec_restarted before after =
    (liveIntervals after \<noteq> [] \<and>
     list_all (\<lambda>h. h \<notin> set (liveIntervals before)) (liveIntervals after))"

text \<open>The overlay once \<open>createDemoSignals\<close> has installed the demo layout.\<close>

definition overlayWithDemo :: "real Overlay" where
  "overlayWithDemo = setTrafficSignals (createDemoSignals defaultLocation) mountOverlay"

text \<open>
  What can happen to a mounted overlay: a call of \<open>setTrafficSignals\<close> (by
  \<open>createDemoSignals\<close>, \<open>enhanceAllSignals\<close> or \<open>clearSignalsFromMap\<close>), or the
  callback of an interval coming due.
\<close>

datatype 'c OverlayEvent = SetSignals "'c TrafficSignal list" | Fires nat

fun overlayStep :: "'c Overlay \<Rightarrow> 'c OverlayEvent \<Rightarrow> 'c Overlay" where
  "overlayStep ov (SetSignals signals) = setTrafficSignals signals ov"
| "overlayStep ov (Fires h) = intervalFires h ov"

definition overlayAfter :: "'c OverlayEvent list \<Rightarrow> 'c Overlay" where
  "overlayAfter events = foldl overlayStep mountOverlay events"

text \<open>The scheduler is idle: no signals, no live interval, no cleanup to run.\<close>

definition idle :: "'c Overlay \<Rightarrow> bool" where
  "idle ov =
    (trafficSignals ov = [] \<and> \<not> lastDependency ov \<and> \<not> cleanupPending ov \<and>
     liveIntervals ov = [])"

section \<open>Auxiliary facts\<close>

lemma run_numeral: "run (numeral k) s = run (pred_numeral k) (updateSignalState s)"
  by (simp add: numeral_eq_Suc)

lemma count_ticks_numeral:
  "count_ticks P (numeral k) s =
     (if P s then 1 else 0) + count_ticks P (pred_numeral k) (updateSignalState s)"
  by (simp add: numeral_eq_Suc)

lemma run_Suc_back: "run (Suc n) s = updateSignalState (run n s)"
  by (induction n arbitrary: s) simp_all

lemma count_ticks_Suc_back:
  "count_ticks P (Suc n) s = count_ticks P n s + (if P (run n s) then 1 else 0)"
  by (induction n arbitrary: s) simp_all

text \<open>The tick with its locals eliminated, one record update per branch.\<close>

lemma updateSignalState_explicit:
  "updateSignalState s =
    (if countdown s - 1 \<le> 0 then
       (case currentState s of
          Red \<Rightarrow> s\<lparr>currentState := Green, countdown := 30, pedestrianWalk := False,
                    completedCycles := completedCycles s\<rparr>
        | Green \<Rightarrow> s\<lparr>currentState := Yellow, countdown := 6, pedestrianWalk := False,
                    completedCycles := completedCycles s\<rparr>
        | Yellow \<Rightarrow>
            (if completedCycles s + 1 \<ge> 2
             then s\<lparr>currentState := Walk, countdown := 20, pedestrianWalk := True,
                    completedCycles := 0\<rparr>
             else s\<lparr>currentState := Red, countdown := 45, pedestrianWalk := False,
                    completedCycles := completedCycles s + 1\<rparr>)
        | Walk \<Rightarrow> s\<lparr>currentState := Red, countdown := 45, pedestrianWalk := False,
                    completedCycles := completedCycles s\<rparr>)
     else s\<lparr>countdown := countdown s - 1, pedestrianWalk := (currentState s = Walk),
            completedCycles := completedCycles s\<rparr>)"
  by (cases "currentState s")
     (simp_all add: updateSignalState_def tickLocals_def or_zero_def Let_def)

lemma updateSignalState_fields:
  "currentState (updateSignalState s) = fst (tickLocals s)"
  "countdown (updateSignalState s) = fst (snd (tickLocals s))"
  "pedestrianWalk (updateSignalState s) = fst (snd (snd (tickLocals s)))"
  "cycleCount (updateSignalState s) = fst (snd (snd (snd (tickLocals s))))"
  "completedCycles (updateSignalState s) = snd (snd (snd (snd (tickLocals s))))"
  by (simp_all add: updateSignalState_def split: prod.splits)

lemma createDemoSignals_loop_step:
  "i < 4 \<Longrightarrow> createDemoSignals_loop location i demoSignals =
     createDemoSignals_loop location (Suc i) (demoSignals @ [demoSignal location i])"
  by (subst createDemoSignals_loop.simps) simp

lemma createDemoSignals_loop_stop:
  "\<not> i < 4 \<Longrightarrow> createDemoSignals_loop location i demoSignals = demoSignals"
  by (subst createDemoSignals_loop.simps) simp

lemma createDemoSignals_unfold:
  "createDemoSignals location =
     [demoSignal location 0, demoSignal location 1, demoSignal location 2,
      demoSignal location 3]"
  by (simp add: createDemoSignals_def createDemoSignals_loop_step createDemoSignals_loop_stop
      eval_nat_numeral)

lemma string_of_nat_small: "n < 10 \<Longrightarrow> string_of_nat n = [digit_char n]"
  by (subst string_of_nat.simps) simp

lemma getInitialState_cases: "getInitialState i \<in> {Red, Green, Yellow}"
proof -
  have "i mod 3 = 0 \<or> i mod 3 = 1 \<or> i mod 3 = 2" by arith
  then show ?thesis by (auto simp: getInitialState_def)
qed

lemma getInitialState_not_Walk: "getInitialState i \<noteq> Walk"
  using getInitialState_cases [of i] by auto

lemma getInitialCountdown_ge: "5 \<le> getInitialCountdown state i"
  by (cases state) (simp_all add: getInitialCountdown_def Let_def)

text \<open>What a freshly created signal holds, for the demo layout and for a candidate.\<close>

lemma demoSignal_fields:
  "currentState (demoSignal location i) = getInitialState i"
  "countdown (demoSignal location i) = getInitialCountdown (getInitialState i) i"
  "pedestrianWalk (demoSignal location i) = False"
  "cycleCount (demoSignal location i) = 0"
  "completedCycles (demoSignal location i) = 0"
  by (simp_all add: demoSignal_def Let_def)

lemma enhanceSignal_fields:
  "currentState (enhanceSignal i c) = getInitialState i"
  "countdown (enhanceSignal i c) = getInitialCountdown (getInitialState i) i"
  "pedestrianWalk (enhanceSignal i c) = False"
  "cycleCount (enhanceSignal i c) = 0"
  "completedCycles (enhanceSignal i c) = 0"
  by (simp_all add: enhanceSignal_def Let_def)

lemma createDemoSignals_member:
  "s \<in> set (createDemoSignals location) \<Longrightarrow> \<exists>i. s = demoSignal location i"
  by (auto simp: createDemoSignals_unfold)

lemma enhanceAllSignals_member:
  "s \<in> set (enhanceAllSignals signalData) \<Longrightarrow> \<exists>i c. s = enhanceSignal i c"
  by (auto simp: enhanceAllSignals_def)

section \<open>The transition function\<close>

text \<open>
  C1. One tick of any signal: when \<open>countdown - 1 > 0\<close> the phase and
  \<open>completedCycles\<close> stay and the countdown drops by one; otherwise Red goes to Green
  with 30, Green to Yellow with 6, Walk to Red with 45, and Yellow first increments
  \<open>completedCycles\<close> and goes to Walk with 20 and the counter reset to 0 when the
  incremented value is at least 2, else to Red with 45 keeping the incremented value.
  The four cases cover every phase.
\<close>

theorem phase_clock_transition:
  "(let t = updateSignalState s in
       (countdown s - 1 > 0 \<longrightarrow>
            currentState t = currentState s \<and> countdown t = countdown s - 1 \<and>
            completedCycles t = completedCycles s)
       \<and> (countdown s - 1 \<le> 0 \<longrightarrow>
            (case currentState s of
               Red \<Rightarrow> currentState t = Green \<and> countdown t = 30
             | Green \<Rightarrow> currentState t = Yellow \<and> countdown t = 6
             | Walk \<Rightarrow> currentState t = Red \<and> countdown t = 45
             | Yellow \<Rightarrow>
                 (if completedCycles s + 1 \<ge> 2
                  then currentState t = Walk \<and> countdown t = 20 \<and> completedCycles t = 0
                  else currentState t = Red \<and> countdown t = 45 \<and>
                       completedCycles t = completedCycles s + 1))))"
  by (cases "currentState s")
     (simp_all add: updateSignalState_fields tickLocals_def or_zero_def Let_def)

text \<open>
  Both branches of C1 at concrete signals: Red at 45 only counts down to 44, and, the
  scenario of the specification, Yellow with countdown 1 and one completed cycle ticks
  to Walk with countdown 20 and the counter back at 0.
\<close>

theorem phase_clock_transition_witness:
  "countdown freshRed - 1 > 0
   \<and> currentState (updateSignalState freshRed) = Red
   \<and> countdown (updateSignalState freshRed) = 44
   \<and> countdown (freshRed\<lparr>currentState := Yellow, countdown := 1, completedCycles := 1\<rparr>) - 1 \<le> 0
   \<and> currentState (updateSignalState
        (freshRed\<lparr>currentState := Yellow, countdown := 1, completedCycles := 1\<rparr>)) = Walk
   \<and> countdown (updateSignalState
        (freshRed\<lparr>currentState := Yellow, countdown := 1, completedCycles := 1\<rparr>)) = 20
   \<and> completedCycles (updateSignalState
        (freshRed\<lparr>currentState := Yellow, countdown := 1, completedCycles := 1\<rparr>)) = 0"
  using phase_clock_transition [of freshRed]
    phase_clock_transition
      [of "freshRed\<lparr>currentState := Yellow, countdown := 1, completedCycles := 1\<rparr>"]
  by (simp add: Let_def freshRed_def)

section \<open>The cycle law\<close>

text \<open>Where a signal set to Red, countdown 45 and no completed cycle stands later.\<close>

lemma run_80_fresh:
  "run 80 (s\<lparr>currentState := Red, countdown := 45, completedCycles := 0\<rparr>)
   = s\<lparr>currentState := Yellow, countdown := 1, pedestrianWalk := False,
       completedCycles := 0\<rparr>"
  by (simp add: run_numeral updateSignalState_explicit)

lemma run_81_fresh:
  "run 81 (s\<lparr>currentState := Red, countdown := 45, completedCycles := 0\<rparr>)
   = s\<lparr>currentState := Red, countdown := 45, pedestrianWalk := False,
       completedCycles := 1\<rparr>"
  by (simp add: run_numeral updateSignalState_explicit)

lemma run_161_fresh:
  "run 161 (s\<lparr>currentState := Red, countdown := 45, completedCycles := 0\<rparr>)
   = s\<lparr>currentState := Yellow, countdown := 1, pedestrianWalk := False,
       completedCycles := 1\<rparr>"
  by (simp add: run_numeral updateSignalState_explicit)

lemma run_162_fresh:
  "run 162 (s\<lparr>currentState := Red, countdown := 45, completedCycles := 0\<rparr>)
   = s\<lparr>currentState := Walk, countdown := 20, pedestrianWalk := True,
       completedCycles := 0\<rparr>"
  by (simp add: run_numeral updateSignalState_explicit)

lemma run_182_fresh:
  "run 182 (s\<lparr>currentState := Red, countdown := 45, completedCycles := 0\<rparr>)
   = s\<lparr>currentState := Red, countdown := 45, pedestrianWalk := False,
       completedCycles := 0\<rparr>"
  by (simp add: run_numeral updateSignalState_explicit)

lemma walk_entries_fresh:
  "count_ticks walk_entry 161
     (s\<lparr>currentState := Red, countdown := 45, completedCycles := 0\<rparr>) = 0"
  "count_ticks walk_entry 162
     (s\<lparr>currentState := Red, countdown := 45, completedCycles := 0\<rparr>) = 1"
  "count_ticks walk_entry 182
     (s\<lparr>currentState := Red, countdown := 45, completedCycles := 0\<rparr>) = 1"
  by (simp_all add: count_ticks_numeral walk_entry_def updateSignalState_explicit)

lemma walk_exits_fresh:
  "count_ticks walk_exit 162
     (s\<lparr>currentState := Red, countdown := 45, completedCycles := 0\<rparr>) = 0"
  "count_ticks walk_exit 181
     (s\<lparr>currentState := Red, countdown := 45, completedCycles := 0\<rparr>) = 0"
  "count_ticks walk_exit 182
     (s\<lparr>currentState := Red, countdown := 45, completedCycles := 0\<rparr>) = 1"
  by (simp_all add: count_ticks_numeral walk_exit_def updateSignalState_explicit)

lemma walk_ticks_fresh:
  "count_ticks (\<lambda>t. currentState t = Walk) 182
     (s\<lparr>currentState := Red, countdown := 45, completedCycles := 0\<rparr>) = 20"
  by (simp add: count_ticks_numeral updateSignalState_explicit)

lemma yellow_exits_fresh:
  "count_ticks yellow_exit 81
     (s\<lparr>currentState := Red, countdown := 45, completedCycles := 0\<rparr>) = 1"
  "count_ticks yellow_exit 162
     (s\<lparr>currentState := Red, countdown := 45, completedCycles := 0\<rparr>) = 2"
  by (simp_all add: count_ticks_numeral yellow_exit_def updateSignalState_explicit)

lemma freshRed_fresh:
  "freshRed = freshRed\<lparr>currentState := Red, countdown := 45, completedCycles := 0\<rparr>"
  by (simp add: freshRed_def)

text \<open>
  C2, as stated, fails at the fresh start: after 162 ticks no Walk phase has been passed
  through. The 162nd tick has only just entered Walk, all 20 seconds of the phase are
  still to come, and none of the 162 ticks has left Walk.
\<close>

theorem cycle_law_162_counterexample:
  "count_ticks walk_exit 162 freshRed = 0
   \<and> currentState (run 162 freshRed) = Walk \<and> countdown (run 162 freshRed) = 20"
proof -
  have "count_ticks walk_exit 162 freshRed = 0"
    using walk_exits_fresh(1) [of freshRed] freshRed_fresh by simp
  moreover have "run 162 freshRed
      = freshRed\<lparr>currentState := Walk, countdown := 20, pedestrianWalk := True,
                 completedCycles := 0\<rparr>"
    using run_162_fresh [of freshRed] freshRed_fresh by simp
  ultimately show ?thesis by simp
qed

text \<open>
  C2, amended. From any signal set to Red, countdown 45 and no completed cycle: after
  exactly 81 ticks it is Red again, at countdown 45, with one completed cycle. The 162nd
  tick is the first to enter Walk, with countdown 20 and the counter reset; up to there
  no tick has left Walk. The signal stays in Walk for exactly 20 ticks: after 182 ticks
  it has entered and left Walk exactly once and is Red again at countdown 45.
\<close>

theorem cycle_law:
  "(let s0 = s\<lparr>currentState := Red, countdown := 45, completedCycles := 0\<rparr> in
      currentState (run 81 s0) = Red \<and> countdown (run 81 s0) = 45 \<and>
      completedCycles (run 81 s0) = 1 \<and>
      count_ticks walk_entry 161 s0 = 0 \<and>
      count_ticks walk_entry 162 s0 = 1 \<and>
      currentState (run 162 s0) = Walk \<and> countdown (run 162 s0) = 20 \<and>
      completedCycles (run 162 s0) = 0 \<and>
      count_ticks walk_exit 162 s0 = 0 \<and>
      count_ticks walk_exit 181 s0 = 0 \<and>
      count_ticks walk_entry 182 s0 = 1 \<and> count_ticks walk_exit 182 s0 = 1 \<and>
      count_ticks (\<lambda>t. currentState t = Walk) 182 s0 = 20 \<and>
      currentState (run 182 s0) = Red \<and> countdown (run 182 s0) = 45)"
  unfolding Let_def
  by (simp only: run_81_fresh run_162_fresh run_182_fresh walk_entries_fresh walk_exits_fresh
      walk_ticks_fresh) simp

section \<open>Sample signals for the instances below\<close>

lemma run_139_first:
  "run 139 (s\<lparr>currentState := Red, countdown := 22, completedCycles := 0\<rparr>)
   = s\<lparr>currentState := Walk, countdown := 20, pedestrianWalk := True,
       completedCycles := 0\<rparr>"
  by (simp add: run_numeral updateSignalState_explicit)

lemma demoSignal_0_first:
  "demoSignal location 0
   = (demoSignal location 0)\<lparr>currentState := Red, countdown := 22, completedCycles := 0\<rparr>"
  by (simp add: demoSignal_def getInitialState_def getInitialCountdown_def Let_def)

lemma enhanceSignal_0_first:
  "enhanceSignal 0 c
   = (enhanceSignal 0 c)\<lparr>currentState := Red, countdown := 22, completedCycles := 0\<rparr>"
  by (simp add: enhanceSignal_def getInitialState_def getInitialCountdown_def Let_def)

lemma run_139_demoSignal:
  "run 139 (demoSignal location 0)
   = (demoSignal location 0)\<lparr>currentState := Walk, countdown := 20, pedestrianWalk := True,
        completedCycles := 0\<rparr>"
  by (subst demoSignal_0_first) (simp add: run_139_first)

lemma run_139_enhanceSignal:
  "run 139 (enhanceSignal 0 c)
   = (enhanceSignal 0 c)\<lparr>currentState := Walk, countdown := 20, pedestrianWalk := True,
        completedCycles := 0\<rparr>"
  by (subst enhanceSignal_0_first) (simp add: run_139_first)

lemma demoSignal_0_member:
  "demoSignal defaultLocation 0 \<in> set (createDemoSignals defaultLocation)"
  by (simp add: createDemoSignals_unfold)

lemma enhanceSignal_0_member:
  "enhanceSignal 0 candidateExplicit \<in> set (enhanceAllSignals [candidateExplicit])"
  by (simp add: enhanceAllSignals_def enhanceSignal_def candidateExplicit_def or_num_def
      Let_def)

section \<open>Pedestrian flag\<close>

lemma tick_flag:
  "pedestrianWalk (updateSignalState t) = (currentState (updateSignalState t) = Walk)"
  by (cases "currentState t") (simp_all add: updateSignalState_explicit)

lemma run_flag:
  "pedestrianWalk s = (currentState s = Walk) \<Longrightarrow>
   pedestrianWalk (run n s) = (currentState (run n s) = Walk)"
  by (cases n) (simp_all only: run.simps(1) run_Suc_back tick_flag)

text \<open>
  C3. In every reachable state the flag \<open>pedestrianWalk\<close> is true exactly when the
  phase is Walk: for a signal of the demo layout and for a signal adapted from a
  candidate, right after creation (\<open>n = 0\<close>) and after any number \<open>n\<close> of ticks; and a
  tick of any signal whatever leaves the flag equal to "the phase is Walk".
\<close>

theorem pedestrian_flag_consistency:
  "(s \<in> set (createDemoSignals location) \<longrightarrow>
      pedestrianWalk (run n s) = (currentState (run n s) = Walk))
   \<and> (s' \<in> set (enhanceAllSignals signalData) \<longrightarrow>
      pedestrianWalk (run n s') = (currentState (run n s') = Walk))
   \<and> pedestrianWalk (updateSignalState t) = (currentState (updateSignalState t) = Walk)"
proof (intro conjI impI)
  assume "s \<in> set (createDemoSignals location)"
  then obtain i where "s = demoSignal location i"
    using createDemoSignals_member by blast
  then have "pedestrianWalk s = (currentState s = Walk)"
    by (simp add: demoSignal_fields getInitialState_not_Walk)
  then show "pedestrianWalk (run n s) = (currentState (run n s) = Walk)"
    by (rule run_flag)
next
  assume "s' \<in> set (enhanceAllSignals signalData)"
  then obtain i c where "s' = enhanceSignal i c"
    using enhanceAllSignals_member by blast
  then have "pedestrianWalk s' = (currentState s' = Walk)"
    by (simp add: enhanceSignal_fields getInitialState_not_Walk)
  then show "pedestrianWalk (run n s') = (currentState (run n s') = Walk)"
    by (rule run_flag)
next
  show "pedestrianWalk (updateSignalState t) = (currentState (updateSignalState t) = Walk)"
    by (rule tick_flag)
qed

text \<open>
  C3 at the first demo signal and at the first adapted candidate, 139 ticks after
  creation, when both have just entered Walk: the flag is set.
\<close>

theorem pedestrian_flag_consistency_witness:
  "demoSignal defaultLocation 0 \<in> set (createDemoSignals defaultLocation)
   \<and> enhanceSignal 0 candidateExplicit \<in> set (enhanceAllSignals [candidateExplicit])
   \<and> currentState (run 139 (demoSignal defaultLocation 0)) = Walk
   \<and> pedestrianWalk (run 139 (demoSignal defaultLocation 0))
   \<and> currentState (run 139 (enhanceSignal 0 candidateExplicit)) = Walk
   \<and> pedestrianWalk (run 139 (enhanceSignal 0 candidateExplicit))"
proof -
  have w1: "currentState (run 139 (demoSignal defaultLocation 0)) = Walk"
    by (simp add: run_139_demoSignal)
  have w2: "currentState (run 139 (enhanceSignal 0 candidateExplicit)) = Walk"
    by (simp add: run_139_enhanceSignal)
  show ?thesis
    using pedestrian_flag_consistency
      [where s = "demoSignal defaultLocation 0" and location = defaultLocation and n = 139
         and s' = "enhanceSignal 0 candidateExplicit" and signalData = "[candidateExplicit]"
         and t = freshRed]
      demoSignal_0_member enhanceSignal_0_member w1 w2
    by simp
qed

section \<open>Countdown\<close>

lemma tick_countdown_pos: "0 < countdown (updateSignalState t)"
  by (cases "currentState t") (simp_all add: updateSignalState_explicit)

lemma run_countdown_nonneg: "0 \<le> countdown s \<Longrightarrow> 0 \<le> countdown (run n s)"
proof (cases n)
  case 0
  assume "0 \<le> countdown s"
  with 0 show ?thesis by simp
next
  case (Suc m)
  have "0 < countdown (updateSignalState (run m s))" by (rule tick_countdown_pos)
  with Suc show ?thesis by (simp only: run_Suc_back)
qed

text \<open>
  C4. The countdown is never negative: not in any state reached from a signal of the
  demo layout or from an adapted candidate, and not after a tick of any signal
  whatever. A tick lowers the countdown by exactly 1 as long as \<open>countdown - 1 > 0\<close>,
  and otherwise sets it to the fixed duration of the phase it enters (45, 30, 6 or 20,
  the table \<open>baseCountdowns\<close>).
\<close>

theorem countdown_law:
  "(s \<in> set (createDemoSignals location) \<longrightarrow> 0 \<le> countdown (run n s))
   \<and> (s' \<in> set (enhanceAllSignals signalData) \<longrightarrow> 0 \<le> countdown (run n s'))
   \<and> 0 \<le> countdown (updateSignalState t)
   \<and> (countdown t - 1 > 0 \<longrightarrow> countdown (updateSignalState t) = countdown t - 1)
   \<and> (countdown t - 1 \<le> 0 \<longrightarrow>
        countdown (updateSignalState t) = baseCountdowns (currentState (updateSignalState t)))"
proof (intro conjI impI)
  assume "s \<in> set (createDemoSignals location)"
  then obtain i where "s = demoSignal location i"
    using createDemoSignals_member by blast
  then have "0 \<le> countdown s"
    using getInitialCountdown_ge [of "getInitialState i" i] by (simp add: demoSignal_fields)
  then show "0 \<le> countdown (run n s)" by (rule run_countdown_nonneg)
next
  assume "s' \<in> set (enhanceAllSignals signalData)"
  then obtain i c where "s' = enhanceSignal i c"
    using enhanceAllSignals_member by blast
  then have "0 \<le> countdown s'"
    using getInitialCountdown_ge [of "getInitialState i" i] by (simp add: enhanceSignal_fields)
  then show "0 \<le> countdown (run n s')" by (rule run_countdown_nonneg)
next
  show "0 \<le> countdown (updateSignalState t)"
    using tick_countdown_pos [of t] by simp
next
  assume "countdown t - 1 > 0"
  then show "countdown (updateSignalState t) = countdown t - 1"
    by (simp add: updateSignalState_explicit)
next
  assume "countdown t - 1 \<le> 0"
  then show "countdown (updateSignalState t) = baseCountdowns (currentState (updateSignalState t))"
    by (cases "currentState t") (simp_all add: updateSignalState_explicit)
qed

text \<open>
  C4 at the first demo signal and the first adapted candidate after 139 ticks, at Red
  with 45 seconds (a plain decrement to 44) and at Red with 1 second (reset to the 30
  seconds of Green).
\<close>

theorem countdown_law_witness:
  "demoSignal defaultLocation 0 \<in> set (createDemoSignals defaultLocation)
   \<and> enhanceSignal 0 candidateExplicit \<in> set (enhanceAllSignals [candidateExplicit])
   \<and> 0 \<le> countdown (run 139 (demoSignal defaultLocation 0))
   \<and> 0 \<le> countdown (run 139 (enhanceSignal 0 candidateExplicit))
   \<and> countdown freshRed - 1 > 0
   \<and> countdown (updateSignalState freshRed) = 44
   \<and> countdown (freshRed\<lparr>countdown := 1\<rparr>) - 1 \<le> 0
   \<and> currentState (updateSignalState (freshRed\<lparr>countdown := 1\<rparr>)) = Green
   \<and> countdown (updateSignalState (freshRed\<lparr>countdown := 1\<rparr>)) = 30"
proof -
  have g: "currentState (updateSignalState (freshRed\<lparr>countdown := 1\<rparr>)) = Green"
    by (simp add: updateSignalState_explicit freshRed_def)
  show ?thesis
    using countdown_law
      [where s = "demoSignal defaultLocation 0" and location = defaultLocation and n = 139
         and s' = "enhanceSignal 0 candidateExplicit" and signalData = "[candidateExplicit]"
         and t = freshRed]
      countdown_law
      [where s = "demoSignal defaultLocation 0" and location = defaultLocation and n = 139
         and s' = "enhanceSignal 0 candidateExplicit" and signalData = "[candidateExplicit]"
         and t = "freshRed\<lparr>countdown := 1\<rparr>"]
      demoSignal_0_member enhanceSignal_0_member g
    by (simp add: freshRed_def)
qed

section \<open>Demo seeding\<close>

text \<open>
  C5. The demo factory returns exactly four signals, at offsets from the anchor that
  depend on the index alone; their phases are \<open>[Red, Green, Yellow][i mod 3]\<close>, that is
  Red, Green, Yellow, Red; the countdown of signal \<open>i\<close>, whose phase has duration
  \<open>D\<close>, is \<open>minTime + ((i*7 + 13) mod (D - minTime + 1))\<close> with
  \<open>minTime = max(5, floor(D*0.2))\<close>, which gives 22, 26, 6 and 43, none of them 0.
  The result is a function of the anchor only, so two runs on one anchor agree.
\<close>

theorem demo_seeding:
  "createDemoSignals location =
     [\<lparr>id_s = ''demo_signal_1'', lat = fst location + 0.001, lng = snd location + 0.001,
       name = ''Traffic Signal 1'', currentState = Red, countdown = 22,
       pedestrianWalk = False, cycleCount = 0, completedCycles = 0\<rparr>,
      \<lparr>id_s = ''demo_signal_2'', lat = fst location - 0.002, lng = snd location + 0.002,
       name = ''Traffic Signal 2'', currentState = Green, countdown = 26,
       pedestrianWalk = False, cycleCount = 0, completedCycles = 0\<rparr>,
      \<lparr>id_s = ''demo_signal_3'', lat = fst location + 0.003, lng = snd location - 0.003,
       name = ''Traffic Signal 3'', currentState = Yellow, countdown = 6,
       pedestrianWalk = False, cycleCount = 0, completedCycles = 0\<rparr>,
      \<lparr>id_s = ''demo_signal_4'', lat = fst location - 0.004, lng = snd location - 0.004,
       name = ''Traffic Signal 4'', currentState = Red, countdown = 43,
       pedestrianWalk = False, cycleCount = 0, completedCycles = 0\<rparr>]
   \<and> length (createDemoSignals location) = 4
   \<and> map currentState (createDemoSignals location)
       = map (\<lambda>i. [Red, Green, Yellow] ! (i mod 3)) [0, 1, 2, 3]
   \<and> map currentState (createDemoSignals location) = [Red, Green, Yellow, Red]
   \<and> map countdown (createDemoSignals location)
       = map (\<lambda>i. let D = baseCountdowns ([Red, Green, Yellow] ! (i mod 3));
                      minTime = max 5 \<lfloor>real_of_int D * 0.2\<rfloor>
                  in minTime + (int i * 7 + 13) mod (D - minTime + 1)) [0, 1, 2, 3]
   \<and> 0 \<notin> set (map countdown (createDemoSignals location))"
  by (simp add: createDemoSignals_unfold demoSignal_def getInitialState_def
      getInitialCountdown_def string_of_nat_small digit_char_def Let_def)

section \<open>Walk periodicity\<close>

lemma tick_completedCycles_other:
  "\<not> yellow_exit x \<Longrightarrow> completedCycles (updateSignalState x) = completedCycles x"
  by (cases "currentState x") (simp_all add: updateSignalState_explicit yellow_exit_def)

lemma tick_completedCycles_yellow:
  "yellow_exit x \<Longrightarrow>
   completedCycles (updateSignalState x)
     = (if completedCycles x + 1 \<ge> 2 then 0 else completedCycles x + 1)"
  by (simp add: updateSignalState_explicit yellow_exit_def)

lemma walk_entry_iff:
  "walk_entry x = (yellow_exit x \<and> completedCycles x + 1 \<ge> 2)"
  by (cases "currentState x")
     (simp_all add: walk_entry_def yellow_exit_def updateSignalState_explicit)

text \<open>
  Along a trace that starts with no completed cycle, \<open>completedCycles\<close> is the parity
  of the number of Yellow exits so far.
\<close>

lemma completedCycles_parity:
  "completedCycles s = 0 \<Longrightarrow>
   completedCycles (run n s) = int (count_ticks yellow_exit n s mod 2)"
proof (induction n)
  case 0
  then show ?case by simp
next
  case (Suc n)
  let ?x = "run n s"
  let ?k = "count_ticks yellow_exit n s"
  have ih: "completedCycles ?x = int (?k mod 2)" using Suc by simp
  show ?case
  proof (cases "yellow_exit ?x")
    case True
    have "?k mod 2 = 0 \<or> ?k mod 2 = 1" by arith
    then show ?thesis
      using True ih
      by (auto simp only: run_Suc_back count_ticks_Suc_back tick_completedCycles_yellow
          split: if_splits) (simp_all add: mod_Suc)
  next
    case False
    then show ?thesis
      using ih by (simp add: run_Suc_back count_ticks_Suc_back tick_completedCycles_other
          del: run.simps(2) count_ticks.simps(2))
  qed
qed

text \<open>
  C6. Along the trace of ticks of a signal that starts with \<open>completedCycles = 0\<close>, as
  every freshly created signal does, tick number \<open>n + 1\<close> enters Walk exactly when it
  is a Yellow exit and is the 2nd, 4th, 6th, ... Yellow exit of the trace; so the 1st,
  3rd, 5th, ... Yellow exits never enter Walk, and Walk is entered in no other way.
\<close>

theorem walk_periodicity:
  "completedCycles s = 0 \<Longrightarrow>
   walk_entry (run n s)
     = (yellow_exit (run n s) \<and> even (count_ticks yellow_exit (Suc n) s))"
proof -
  assume fresh: "completedCycles s = 0"
  let ?x = "run n s"
  let ?k = "count_ticks yellow_exit n s"
  have cc: "completedCycles ?x = int (?k mod 2)"
    using fresh by (rule completedCycles_parity)
  have "?k mod 2 = 0 \<or> ?k mod 2 = 1" by arith
  then have "(completedCycles ?x + 1 \<ge> 2) = odd ?k"
    using cc by (auto simp: odd_iff_mod_2_eq_one)
  then show ?thesis
    by (simp add: walk_entry_iff count_ticks_Suc_back del: count_ticks.simps(2))
qed

text \<open>
  C6 on the fresh start: tick 81 is the first Yellow exit and does not enter Walk, tick
  162 is the second and does.
\<close>

theorem walk_periodicity_witness:
  "completedCycles freshRed = 0
   \<and> yellow_exit (run 80 freshRed) \<and> count_ticks yellow_exit (Suc 80) freshRed = 1
   \<and> \<not> walk_entry (run 80 freshRed)
   \<and> yellow_exit (run 161 freshRed) \<and> count_ticks yellow_exit (Suc 161) freshRed = 2
   \<and> walk_entry (run 161 freshRed)"
proof -
  have f: "completedCycles freshRed = 0" by (simp add: freshRed_def)
  have r80: "yellow_exit (run 80 freshRed)"
    by (subst freshRed_fresh) (simp add: run_80_fresh yellow_exit_def)
  have r161: "yellow_exit (run 161 freshRed)"
    by (subst freshRed_fresh) (simp add: run_161_fresh yellow_exit_def)
  have k81: "count_ticks yellow_exit (Suc 80) freshRed = 1"
    using yellow_exits_fresh(1) [of freshRed] freshRed_fresh by simp
  have k162: "count_ticks yellow_exit (Suc 161) freshRed = 2"
    using yellow_exits_fresh(2) [of freshRed] freshRed_fresh by simp
  show ?thesis
    using walk_periodicity [OF f, of 80] walk_periodicity [OF f, of 161] f r80 r161 k81 k162
    by (simp del: count_ticks.simps(2))
qed

section \<open>Adapting raw candidates\<close>

text \<open>
  For a candidate none of whose coordinate values is 0, the filter of
  \<open>enhanceAllSignals\<close> keeps the adapted signal exactly when the candidate has a
  resolvable coordinate.
\<close>

lemma enhanceSignal_truthy_iff:
  "zero_free c \<Longrightarrow>
   (truthy_num (lat (enhanceSignal i c)) \<and> truthy_num (lng (enhanceSignal i c)))
     = spec_resolvable c"
  by (cases "c_lat c"; cases "c_lng c"; cases "geometry_coordinate c 0";
      cases "geometry_coordinate c 1"; cases "latlng_lat c"; cases "latlng_lng c")
     (simp_all add: enhanceSignal_def Let_def or_num_def zero_free_def spec_resolvable_def)

lemma enhanceSignal_mapped:
  "i < length signalData \<Longrightarrow>
   enhanceSignal i (signalData ! i)
     \<in> set (map (\<lambda>(index, signal). enhanceSignal index signal) (enumerate 0 signalData))"
proof -
  assume "i < length signalData"
  then have "(i, signalData ! i) \<in> set (enumerate 0 signalData)"
    by (simp add: in_set_enumerate_eq)
  then show ?thesis by force
qed

lemma enhanceAllSignals_keeps_iff:
  "i < length signalData \<Longrightarrow> zero_free (signalData ! i) \<Longrightarrow>
   (enhanceSignal i (signalData ! i) \<in> set (enhanceAllSignals signalData))
     = spec_resolvable (signalData ! i)"
  using enhanceSignal_mapped [of i signalData] enhanceSignal_truthy_iff [of "signalData ! i" i]
  by (simp add: enhanceAllSignals_def)

text \<open>
  C7 fails on the code for a coordinate that is the number 0. A candidate with the
  explicit fields \<open>lat: 0, lng: 77.1025\<close> has a resolvable coordinate, but
  \<open>signal.lat || ...\<close> and the filter \<open>signal.lat && signal.lng\<close> take the falsy 0
  for a missing value, and the candidate is dropped: alone it leaves an empty set, and
  in a batch with a good candidate and one without coordinates only the good one stays.
\<close>

theorem equator_candidate_dropped:
  "spec_resolvable candidateOnEquator
   \<and> enhanceAllSignals [candidateOnEquator] = []
   \<and> map id_s (enhanceAllSignals [candidateExplicit, candidateOnEquator, candidateNowhere])
       = [''global_signal_0'']"
  by (simp add: spec_resolvable_def candidateOnEquator_def candidateExplicit_def
      candidateNowhere_def enhanceAllSignals_def enhanceSignal_def or_num_def or_str_def
      geometry_coordinate_def latlng_lat_def latlng_lng_def properties_name_def
      string_of_nat_small digit_char_def Let_def)

section \<open>The scheduler\<close>

lemma mountOverlay_eq:
  "(mountOverlay :: 'c Overlay) =
     \<lparr>trafficSignals = [], intervalRef = None, liveIntervals = [],
      nextHandle = 1, lastDependency = False, cleanupPending = False\<rparr>"
  by (simp add: mountOverlay_def timerEffect_def)

lemma idle_mountOverlay: "idle mountOverlay"
  by (simp add: mountOverlay_eq idle_def)

lemma setTrafficSignals_running:
  "running h ov \<Longrightarrow> signals \<noteq> [] \<Longrightarrow>
   setTrafficSignals signals ov = ov\<lparr>trafficSignals := signals\<rparr>"
  by (simp add: setTrafficSignals_def running_def Let_def)

lemma running_replace:
  "running h ov \<Longrightarrow> signals \<noteq> [] \<Longrightarrow> running h (ov\<lparr>trafficSignals := signals\<rparr>)"
  by (simp add: running_def)

lemma setTrafficSignals_stop:
  "running h ov \<Longrightarrow>
   setTrafficSignals [] ov =
     ov\<lparr>trafficSignals := [], liveIntervals := [], lastDependency := False,
        cleanupPending := False\<rparr>"
  by (simp add: setTrafficSignals_def running_def timerCleanup_def clearInterval_def
      timerEffect_def Let_def)

lemma setTrafficSignals_start:
  "idle ov \<Longrightarrow> signals \<noteq> [] \<Longrightarrow> running (nextHandle ov) (setTrafficSignals signals ov)"
  by (cases "intervalRef ov")
     (simp_all add: setTrafficSignals_def idle_def running_def timerEffect_def
        clearInterval_def Let_def)

lemma setTrafficSignals_idle:
  "idle ov \<Longrightarrow> setTrafficSignals [] ov = ov"
  by (simp add: setTrafficSignals_def idle_def Let_def)

lemma running_overlayWithDemo: "running 1 overlayWithDemo"
  using setTrafficSignals_start [OF idle_mountOverlay, of "createDemoSignals defaultLocation"]
  by (simp add: overlayWithDemo_def createDemoSignals_unfold mountOverlay_eq)

text \<open>Every event takes an idle or running overlay to an idle or running one.\<close>

lemma overlayStep_invariant:
  assumes "idle ov \<or> (\<exists>h. running h ov)"
  shows "idle (overlayStep ov e) \<or> (\<exists>h. running h (overlayStep ov e))"
proof (cases e)
  case (SetSignals signals)
  show ?thesis
  proof (cases "signals = []")
    case True
    from assms show ?thesis
    proof
      assume "idle ov"
      then show ?thesis using SetSignals True by (simp add: setTrafficSignals_idle)
    next
      assume "\<exists>h. running h ov"
      then obtain h where "running h ov" ..
      then have "idle (setTrafficSignals [] ov)"
        by (simp add: setTrafficSignals_stop idle_def)
      then show ?thesis using SetSignals True by simp
    qed
  next
    case False
    from assms show ?thesis
    proof
      assume "idle ov"
      then have "running (nextHandle ov) (setTrafficSignals signals ov)"
        using False by (rule setTrafficSignals_start)
      then show ?thesis using SetSignals by auto
    next
      assume "\<exists>h. running h ov"
      then obtain h where r: "running h ov" ..
      then have "running h (setTrafficSignals signals ov)"
        using False by (simp add: setTrafficSignals_running running_replace)
      then show ?thesis using SetSignals by auto
    qed
  qed
next
  case (Fires k)
  from assms show ?thesis
  proof
    assume "idle ov"
    then show ?thesis using Fires by (simp add: intervalFires_def idle_def)
  next
    assume "\<exists>h. running h ov"
    then obtain h where r: "running h ov" ..
    then have ne: "updateSignalStates (trafficSignals ov) \<noteq> []"
      by (simp add: running_def updateSignalStates_def)
    have "running h (intervalFires k ov)"
      using r ne by (simp add: intervalFires_def setTrafficSignals_running running_replace)
    then show ?thesis using Fires by auto
  qed
qed

lemma overlayAfter_invariant:
  "idle (overlayAfter events :: 'c Overlay)
   \<or> (\<exists>h. running h (overlayAfter events :: 'c Overlay))"
proof (induction events rule: rev_induct)
  case Nil
  then show ?case by (simp add: overlayAfter_def idle_mountOverlay)
next
  case (snoc e events)
  then show ?case
    using overlayStep_invariant [of "overlayAfter events" e]
    by (simp add: overlayAfter_def)
qed

lemma at_most_one_interval: "length (liveIntervals (overlayAfter events)) \<le> 1"
  using overlayAfter_invariant [of events] by (auto simp: idle_def running_def)

text \<open>
  C8, as stated, fails when the demo layout is running and another non-empty set
  replaces it (what \<open>enhanceAllSignals\<close> does two seconds after the demo signals were
  installed): the old interval 1 is still the live one and no new interval was created,
  so the cadence was not restarted.
\<close>

theorem scheduler_replace_counterexample:
  "running 1 overlayWithDemo
   \<and> \<not> spec_restarted overlayWithDemo (setTrafficSignals [freshRed] overlayWithDemo)
   \<and> liveIntervals (setTrafficSignals [freshRed] overlayWithDemo) = [1]
   \<and> nextHandle (setTrafficSignals [freshRed] overlayWithDemo) = nextHandle overlayWithDemo"
proof -
  have r: "running 1 overlayWithDemo" by (rule running_overlayWithDemo)
  have e: "setTrafficSignals [freshRed] overlayWithDemo
             = overlayWithDemo\<lparr>trafficSignals := [freshRed]\<rparr>"
    using r by (rule setTrafficSignals_running) simp
  have l: "liveIntervals overlayWithDemo = [1]" using r by (simp add: running_def)
  show ?thesis using r by (simp add: e l spec_restarted_def)
qed

text \<open>
  C8, amended. While the scheduler runs on the interval \<open>h\<close>, replacing the signal set
  by another non-empty set does not stop or restart the cadence (the effect depends
  only on \<open>trafficSignals.length > 0\<close>): the same interval stays the only live one and no
  handle is allocated; each later firing of it ticks the new set and nothing else, and
  the callback of any other handle does nothing. The interval is cleared when the set
  becomes empty, and a fresh one is started when it becomes non-empty again. Whatever
  the sequence of replacements and firings since the mount, at most one interval is
  live, so no two tick loops overlap.
\<close>

theorem scheduler_keeps_interval:
  "running h ov \<Longrightarrow> signals \<noteq> [] \<Longrightarrow>
   running h (setTrafficSignals signals ov)
   \<and> trafficSignals (setTrafficSignals signals ov) = signals
   \<and> liveIntervals (setTrafficSignals signals ov) = [h]
   \<and> nextHandle (setTrafficSignals signals ov) = nextHandle ov
   \<and> running h (intervalFires h (setTrafficSignals signals ov))
   \<and> trafficSignals (intervalFires h (setTrafficSignals signals ov))
       = updateSignalStates signals
   \<and> (h' \<noteq> h \<longrightarrow>
        intervalFires h' (setTrafficSignals signals ov) = setTrafficSignals signals ov)
   \<and> liveIntervals (setTrafficSignals [] ov) = []
   \<and> running (nextHandle ov) (setTrafficSignals signals (setTrafficSignals [] ov))
   \<and> length (liveIntervals (overlayAfter events)) \<le> 1"
proof -
  assume r: "running h ov" and ne: "signals \<noteq> []"
  let ?ov = "setTrafficSignals signals ov"
  have e: "?ov = ov\<lparr>trafficSignals := signals\<rparr>"
    using r ne by (rule setTrafficSignals_running)
  have r': "running h ?ov" unfolding e using r ne by (rule running_replace)
  have ne': "updateSignalStates signals \<noteq> []"
    using ne by (simp add: updateSignalStates_def)
  have f: "intervalFires h ?ov = ?ov\<lparr>trafficSignals := updateSignalStates signals\<rparr>"
    using r' ne' setTrafficSignals_running [OF r' ne']
    by (simp add: intervalFires_def running_def e)
  have stop: "setTrafficSignals [] ov =
      ov\<lparr>trafficSignals := [], liveIntervals := [], lastDependency := False,
         cleanupPending := False\<rparr>"
    using r by (rule setTrafficSignals_stop)
  have "idle (setTrafficSignals [] ov)" by (simp add: stop idle_def)
  then have "running (nextHandle (setTrafficSignals [] ov))
               (setTrafficSignals signals (setTrafficSignals [] ov))"
    using ne by (rule setTrafficSignals_start)
  then have start: "running (nextHandle ov) (setTrafficSignals signals (setTrafficSignals [] ov))"
    by (simp add: stop)
  have c2: "trafficSignals ?ov = signals" by (simp add: e)
  have c3: "liveIntervals ?ov = [h]" using r' by (simp add: running_def)
  have c4: "nextHandle ?ov = nextHandle ov" by (simp add: e)
  have c5: "running h (intervalFires h ?ov)"
    unfolding f using r' ne' by (rule running_replace)
  have c6: "trafficSignals (intervalFires h ?ov) = updateSignalStates signals"
    by (simp add: f)
  have c7: "h' \<noteq> h \<longrightarrow> intervalFires h' ?ov = ?ov"
    using c3 by (simp add: intervalFires_def)
  have c8: "liveIntervals (setTrafficSignals [] ov) = []" by (simp add: stop)
  show ?thesis
    by (intro conjI) (fact r' c2 c3 c4 c5 c6 c7 c8 start at_most_one_interval)+
qed

text \<open>
  C8, amended, on the running demo layout replaced by a one-signal set: the interval 1
  goes on, its next firing ticks the new signal, and the callback of a handle 2 does
  nothing.
\<close>

theorem scheduler_keeps_interval_witness:
  "running 1 overlayWithDemo \<and> [freshRed] \<noteq> []
   \<and> liveIntervals (setTrafficSignals [freshRed] overlayWithDemo) = [1]
   \<and> trafficSignals (intervalFires 1 (setTrafficSignals [freshRed] overlayWithDemo))
       = [updateSignalState freshRed]
   \<and> (2::nat) \<noteq> 1
   \<and> intervalFires 2 (setTrafficSignals [freshRed] overlayWithDemo)
       = setTrafficSignals [freshRed] overlayWithDemo"
proof -
  have ne: "[freshRed] \<noteq> []" by simp
  show ?thesis
    using scheduler_keeps_interval
        [OF running_overlayWithDemo ne, where h' = 2
           and events = "[] :: real OverlayEvent list"]
      running_overlayWithDemo
    by (simp add: updateSignalStates_def)
qed

section \<open>Frame of a tick\<close>

text \<open>
  C9. One tick of a signal set keeps the number and the order of the signals and,
  position by position, every \<open>id\<close>, \<open>lat\<close>, \<open>lng\<close> and \<open>name\<close>; only
  \<open>currentState\<close>, \<open>countdown\<close>, \<open>pedestrianWalk\<close> and the two cycle counters are
  written.
\<close>

theorem tick_frame:
  "length (updateSignalStates prev) = length prev
   \<and> map id_s (updateSignalStates prev) = map id_s prev
   \<and> map lat (updateSignalStates prev) = map lat prev
   \<and> map lng (updateSignalStates prev) = map lng prev
   \<and> map name (updateSignalStates prev) = map name prev
   \<and> map TrafficSignal.more (updateSignalStates prev) = map TrafficSignal.more prev"
  by (simp add: updateSignalStates_def updateSignalState_def split: prod.splits)

section \<open>The field \<open>cycleCount\<close>\<close>

lemma tick_cycleCount: "cycleCount (updateSignalState t) = cycleCount t"
  by (cases "currentState t") (simp_all add: updateSignalState_explicit)

lemma run_cycleCount: "cycleCount (run n s) = cycleCount s"
  by (induction n) (simp_all only: run.simps(1) run_Suc_back tick_cycleCount)

text \<open>
  C10. \<open>cycleCount\<close> is a field of its own beside \<open>completedCycles\<close>. Both factories
  create it as 0 and every tick copies it, so it is 0 in every state reached from a demo
  signal or an adapted candidate. It has no part in any transition: a tick of a signal
  with another \<open>cycleCount\<close> is the same tick with that \<open>cycleCount\<close> carried along.
\<close>

theorem cycleCount_inert:
  "(s \<in> set (createDemoSignals location) \<longrightarrow> cycleCount (run n s) = 0)
   \<and> (s' \<in> set (enhanceAllSignals signalData) \<longrightarrow> cycleCount (run n s') = 0)
   \<and> cycleCount (updateSignalState t) = cycleCount t
   \<and> updateSignalState (t\<lparr>cycleCount := k\<rparr>) = (updateSignalState t)\<lparr>cycleCount := k\<rparr>"
proof (intro conjI impI)
  assume "s \<in> set (createDemoSignals location)"
  then obtain i where "s = demoSignal location i"
    using createDemoSignals_member by blast
  then show "cycleCount (run n s) = 0"
    by (simp add: run_cycleCount demoSignal_fields)
next
  assume "s' \<in> set (enhanceAllSignals signalData)"
  then obtain i c where "s' = enhanceSignal i c"
    using enhanceAllSignals_member by blast
  then show "cycleCount (run n s') = 0"
    by (simp add: run_cycleCount enhanceSignal_fields)
next
  show "cycleCount (updateSignalState t) = cycleCount t" by (rule tick_cycleCount)
next
  show "updateSignalState (t\<lparr>cycleCount := k\<rparr>) = (updateSignalState t)\<lparr>cycleCount := k\<rparr>"
    by (cases "currentState t") (simp_all add: updateSignalState_explicit)
qed

text \<open>
  C10 at the first demo signal and the first adapted candidate after 139 ticks, when
  \<open>completedCycles\<close> has gone to 1 and back to 0 and Walk has been entered.
\<close>

theorem cycleCount_inert_witness:
  "demoSignal defaultLocation 0 \<in> set (createDemoSignals defaultLocation)
   \<and> enhanceSignal 0 candidateExplicit \<in> set (enhanceAllSignals [candidateExplicit])
   \<and> currentState (run 139 (demoSignal defaultLocation 0)) = Walk
   \<and> cycleCount (run 139 (demoSignal defaultLocation 0)) = 0
   \<and> cycleCount (run 139 (enhanceSignal 0 candidateExplicit)) = 0"
proof -
  have w: "currentState (run 139 (demoSignal defaultLocation 0)) = Walk"
    by (simp add: run_139_demoSignal)
  show ?thesis
    using cycleCount_inert
      [where s = "demoSignal defaultLocation 0" and location = defaultLocation and n = 139
         and s' = "enhanceSignal 0 candidateExplicit" and signalData = "[candidateExplicit]"
         and t = freshRed and k = 0]
      demoSignal_0_member enhanceSignal_0_member w
    by simp
qed

end
